theory Spec2Isabelle
  imports Complex_Main
begin

section \<open>Tensors\<close>

text \<open>
  The program computes on torch tensors. A tensor is modelled by its shape and its
  entries in row-major order, as a contiguous torch tensor stores them. Entries of
  floating tensors are taken in \<^typ>\<open>real\<close>: the arithmetic the program itself does on
  them (multiplying by a 0/1 mask, adding a masked-out zero, comparing) is exact on
  finite values; the non-finite values of IEEE arithmetic are not part of the model.
  Boolean masks are \<^typ>\<open>bool\<close> tensors, index tensors are \<^typ>\<open>nat\<close> tensors.
\<close>

datatype error =
    ValueError string
  | RuntimeError
  | IndexError
  | AttributeError

definition bindE :: "error + 'a \<Rightarrow> ('a \<Rightarrow> error + 'b) \<Rightarrow> error + 'b" where
  "bindE m f = (case m of Inl e \<Rightarrow> Inl e | Inr x \<Rightarrow> f x)"

datatype 'a tensor = Tensor (shape: "nat list") (elems: "'a list")

definition numel :: "nat list \<Rightarrow> nat" where
  "numel s = prod_list s"

text \<open>Every tensor holds as many entries as its shape says.\<close>

definition wf_tensor :: "'a tensor \<Rightarrow> bool" where
  "wf_tensor t = (length (elems t) = numel (shape t))"

text \<open>A multi-index is within a shape when each component is below its dimension.\<close>

definition valid_index :: "nat list \<Rightarrow> nat list \<Rightarrow> bool" where
  "valid_index s idx = list_all2 (\<lambda>i d. i < d) idx s"

text \<open>All multi-indices of a shape, in row-major order, and the offset of one.\<close>

fun all_indices :: "nat list \<Rightarrow> nat list list" where
  "all_indices [] = [ [] ]"
| "all_indices (d # s) = concat (map (\<lambda>i. map ((#) i) (all_indices s)) [0..<d])"

fun flat_index :: "nat list \<Rightarrow> nat list \<Rightarrow> nat" where
  "flat_index (d # s) (i # idx) = i * numel s + flat_index s idx"
| "flat_index s idx = 0"

definition at_idx :: "'a tensor \<Rightarrow> nat list \<Rightarrow> 'a" where
  "at_idx t idx = elems t ! flat_index (shape t) idx"

definition tabulate :: "nat list \<Rightarrow> (nat list \<Rightarrow> 'a) \<Rightarrow> 'a tensor" where
  "tabulate s g = Tensor s (map g (all_indices s))"

text \<open>\<^verbatim>\<open>torch.zeros(shape)\<close>, \<^verbatim>\<open>torch.ones(shape)\<close>.\<close>

definition torch_zeros :: "nat list \<Rightarrow> real tensor" where
  "torch_zeros s = Tensor s (replicate (numel s) 0)"

definition torch_ones :: "nat list \<Rightarrow> real tensor" where
  "torch_ones s = Tensor s (replicate (numel s) 1)"

text \<open>
  \<^verbatim>\<open>t.squeeze()\<close> without an argument removes every dimension of size 1, wherever it
  stands; \<^verbatim>\<open>t.unsqueeze(-1)\<close> appends one. Neither moves an entry.
\<close>

definition squeeze :: "'a tensor \<Rightarrow> 'a tensor" where
  "squeeze t = Tensor (filter (\<lambda>d. d \<noteq> 1) (shape t)) (elems t)"

definition unsqueeze_last :: "'a tensor \<Rightarrow> 'a tensor" where
  "unsqueeze_last t = Tensor (shape t @ [1]) (elems t)"

text \<open>
  Broadcasting of two shapes, aligned at their last dimensions: two dimensions go
  together when they are equal or one of them is 1. The functions with suffix
  \<open>_rev\<close> work on reversed shapes and indices.
\<close>

fun broadcast_rev :: "nat list \<Rightarrow> nat list \<Rightarrow> nat list option" where
  "broadcast_rev [] ys = Some ys"
| "broadcast_rev xs [] = Some xs"
| "broadcast_rev (x # xs) (y # ys) =
     (if x = y \<or> x = 1 \<or> y = 1
      then map_option ((#) (if x = 1 then y else x)) (broadcast_rev xs ys)
      else None)"

definition broadcast_shapes :: "nat list \<Rightarrow> nat list \<Rightarrow> nat list option" where
  "broadcast_shapes a b = map_option rev (broadcast_rev (rev a) (rev b))"

text \<open>The index of an operand's entry that goes into the result's entry at \<open>idx\<close>.\<close>

fun broadcast_index_rev :: "nat list \<Rightarrow> nat list \<Rightarrow> nat list" where
  "broadcast_index_rev (d # s) (i # idx) = (if d = 1 then 0 else i) # broadcast_index_rev s idx"
| "broadcast_index_rev s idx = []"

definition broadcast_index :: "nat list \<Rightarrow> nat list \<Rightarrow> nat list" where
  "broadcast_index s idx = rev (broadcast_index_rev (rev s) (rev idx))"

text \<open>A binary operator on tensors: entry by entry, after broadcasting.\<close>

definition pointwise :: "('a \<Rightarrow> 'b \<Rightarrow> 'c) \<Rightarrow> 'a tensor \<Rightarrow> 'b tensor \<Rightarrow> error + 'c tensor" where
  "pointwise f a b =
     (case broadcast_shapes (shape a) (shape b) of
        None \<Rightarrow> Inl RuntimeError
      | Some r \<Rightarrow> Inr (tabulate r (\<lambda>idx.
          f (at_idx a (broadcast_index (shape a) idx)) (at_idx b (broadcast_index (shape b) idx)))))"

text \<open>\<^verbatim>\<open>a < b\<close>, \<^verbatim>\<open>~m\<close>, \<^verbatim>\<open>a * m\<close> for a mask \<open>m\<close> (\<open>True\<close> counts as 1), \<^verbatim>\<open>a + b\<close>, \<^verbatim>\<open>c * a\<close> for a number \<open>c\<close>.\<close>

definition tensor_lt :: "real tensor \<Rightarrow> real tensor \<Rightarrow> error + bool tensor" where
  "tensor_lt a b = pointwise (\<lambda>x y. x < y) a b"

definition tensor_not :: "bool tensor \<Rightarrow> bool tensor" where
  "tensor_not m = Tensor (shape m) (map Not (elems m))"

definition tensor_mul_mask :: "real tensor \<Rightarrow> bool tensor \<Rightarrow> error + real tensor" where
  "tensor_mul_mask a m = pointwise (\<lambda>x b. x * of_bool b) a m"

definition tensor_add :: "real tensor \<Rightarrow> real tensor \<Rightarrow> error + real tensor" where
  "tensor_add a b = pointwise (\<lambda>x y. x + y) a b"

definition scalar_mul :: "real \<Rightarrow> real tensor \<Rightarrow> real tensor" where
  "scalar_mul c a = Tensor (shape a) (map (\<lambda>x. c * x) (elems a))"

section \<open>The best-so-far merge and its tracker\<close>

text \<open>
  \<^verbatim>\<open>ReferenceClass.error_tracker\<close>: zero weights and unit errors, both squeezed. The
  device only says where the tensors live.
\<close>

definition error_tracker :: "nat list \<Rightarrow> string \<Rightarrow> real tensor \<times> real tensor" where
  "error_tracker weight_shape dev =
     (let weights = squeeze (torch_zeros weight_shape);
          error = squeeze (torch_ones (butlast weight_shape))
      in (weights, error))"

text \<open>
  \<^verbatim>\<open>ReferenceClass.pairwise_select\<close>. The source merges by arithmetic on the mask:
  \<^verbatim>\<open>min_error * ~indices + curr_error * indices\<close>, and the same on the weights with the
  mask unsqueezed at the end. Each operator builds a new tensor.
\<close>

definition pairwise_select ::
  "real tensor \<Rightarrow> real tensor \<Rightarrow> real tensor \<Rightarrow> real tensor \<Rightarrow> error + (real tensor \<times> real tensor)" where
  "pairwise_select curr_error min_error curr_weight min_weight =
     bindE (tensor_lt curr_error min_error) (\<lambda>indices.
     bindE (tensor_mul_mask min_error (tensor_not indices)) (\<lambda>e1.
     bindE (tensor_mul_mask curr_error indices) (\<lambda>e2.
     bindE (tensor_add e1 e2) (\<lambda>min_error'.
     bindE (tensor_mul_mask min_weight (tensor_not (unsqueeze_last indices))) (\<lambda>w1.
     bindE (tensor_mul_mask curr_weight (unsqueeze_last indices)) (\<lambda>w2.
     bindE (tensor_add w1 w2) (\<lambda>min_weight'.
     Inr (min_weight', min_error'))))))))"

text \<open>
  What the merge is meant to be, in the words of its description: where the current
  error is strictly below the best one, the current entry, elsewhere the best one.
\<close>

definition where_error :: "real tensor \<Rightarrow> real tensor \<Rightarrow> real tensor" where
  "where_error curr_error min_error =
     tabulate (shape min_error) (\<lambda>idx.
       if at_idx curr_error idx < at_idx min_error idx
       then at_idx curr_error idx else at_idx min_error idx)"

definition where_weight :: "real tensor \<Rightarrow> real tensor \<Rightarrow> real tensor \<Rightarrow> real tensor \<Rightarrow> real tensor" where
  "where_weight curr_error min_error curr_weight min_weight =
     tabulate (shape min_weight) (\<lambda>idx.
       if at_idx curr_error (butlast idx) < at_idx min_error (butlast idx)
       then at_idx curr_weight idx else at_idx min_weight idx)"


text \<open>
  The tracker as its description words it: zero weights of the weight shape with only
  the singleton dimensions at its end removed, and unit errors of the weight shape
  without its last dimension.
\<close>

definition collapse_trailing :: "nat list \<Rightarrow> nat list" where
  "collapse_trailing s = rev (dropWhile (\<lambda>d. d = 1) (rev s))"

definition error_tracker_described :: "nat list \<Rightarrow> real tensor \<times> real tensor" where
  "error_tracker_described weight_shape =
     (torch_zeros (collapse_trailing weight_shape), torch_ones (butlast weight_shape))"


section \<open>Further tensor operations of the library\<close>


text \<open>\<^verbatim>\<open>t.t()\<close>: a matrix is transposed, a vector or a number is returned as it is, and
  a tensor of higher rank is refused.\<close>

definition tensor_t :: "'a tensor \<Rightarrow> error + 'a tensor" where
  "tensor_t t =
     (case shape t of
        [] \<Rightarrow> Inr t
      | [n] \<Rightarrow> Inr t
      | [n, m] \<Rightarrow> Inr (tabulate [m, n] (\<lambda>idx. at_idx t (rev idx)))
      | _ \<Rightarrow> Inl RuntimeError)"

text \<open>\<^verbatim>\<open>torch.norm(t, p=2, dim=-1)\<close>: the Euclidean norm along the last dimension.\<close>

definition norm_last :: "real tensor \<Rightarrow> real tensor" where
  "norm_last t =
     (if shape t = [] then Tensor [] (map (\<lambda>x. sqrt (x\<^sup>2)) (elems t))
      else tabulate (butlast (shape t)) (\<lambda>idx.
             sqrt (\<Sum>j\<leftarrow>[0..<last (shape t)]. (at_idx t (idx @ [j]))\<^sup>2)))"

text \<open>\<^verbatim>\<open>int((t < c).sum())\<close>: how many entries are below \<open>c\<close>.\<close>

definition count_below :: "real tensor \<Rightarrow> real \<Rightarrow> int" where
  "count_below t c = int (length (filter (\<lambda>x. x < c) (elems t)))"



definition insert_at :: "nat \<Rightarrow> nat \<Rightarrow> nat list \<Rightarrow> nat list" where
  "insert_at k j idx = take k idx @ j # drop k idx"


section \<open>The collaborators\<close>

text \<open>
  The linear model and the dataset are classes of the repository outside this file.
  The optimizer uses them only through their methods, so a model object is a value of
  any type \<open>'m\<close> together with these methods; a method that changes the object in
  place returns the changed object.
\<close>

record 'm LinearModel_ops =
  new_model :: "real tensor \<Rightarrow> 'm"
  size_model :: "'m \<Rightarrow> nat list"
  weights :: "'m \<Rightarrow> real tensor"
  proj_grad :: "'m \<Rightarrow> real tensor \<Rightarrow> real tensor \<Rightarrow> real tensor"
  update :: "'m \<Rightarrow> real tensor \<Rightarrow> 'm"
  conditional_one_rate :: "'m \<Rightarrow> real tensor \<Rightarrow> real tensor \<Rightarrow> real tensor"
  reduce :: "'m \<Rightarrow> nat tensor \<Rightarrow> nat \<Rightarrow> 'm"

record 'd Dataset_ops =
  len_dataset :: "'d \<Rightarrow> nat"
  dim_feature :: "'d \<Rightarrow> nat"
  dim_label :: "'d \<Rightarrow> nat"
  getitem :: "'d \<Rightarrow> nat list \<Rightarrow> real tensor \<times> real tensor"

text \<open>\<^verbatim>\<open>torch.utils.data.Subset\<close>: a dataset and the indices picked from it;
  \<^verbatim>\<open>subset[:]\<close> reads all of them.\<close>

record 'd Subset =
  sub_dataset :: 'd
  sub_indices :: "nat list"

definition subset_all :: "'d Dataset_ops \<Rightarrow> 'd Subset \<Rightarrow> real tensor \<times> real tensor" where
  "subset_all dops sub = getitem dops (sub_dataset sub) (sub_indices sub)"

text \<open>
  Modelled from the spec: \<^verbatim>\<open>LinearModel.reduce\<close>, whose code is not in this file,
  described as collapsing the given axis by gathering the entry at the index given for
  each position before it.
\<close>

definition reduce_spec :: "real tensor \<Rightarrow> nat tensor \<Rightarrow> nat \<Rightarrow> real tensor" where
  "reduce_spec w ids k =
     tabulate (take k (shape w) @ drop (Suc k) (shape w))
       (\<lambda>idx. at_idx w (insert_at k (at_idx ids (take k idx)) idx))"

text \<open>The progress bar: its counter, how often it was drawn, whether it is closed.\<close>

record tqdm =
  bar_total :: nat
  bar_desc :: string
  bar_n :: int
  bar_refreshes :: nat
  bar_closed :: bool

definition tqdm_new :: "nat \<Rightarrow> string \<Rightarrow> tqdm" where
  "tqdm_new total' desc' =
     \<lparr>bar_total = total', bar_desc = desc', bar_n = 0, bar_refreshes = 0, bar_closed = False\<rparr>"

section \<open>Construction\<close>





record 'd ReferenceClass =
  header :: string
  num_iter :: int
  lr :: real
  device :: string
  dataset_train :: "'d Subset"
  dataset_val :: "'d Subset option"
  dataset_eval :: "'d Subset"
  converged_bar :: "tqdm option"



section \<open>The optimizer\<close>

text \<open>
  \<^verbatim>\<open>ReferenceClass.grad_update\<close>: the labels are transposed, the model gives its
  projected gradient and is updated by \<open>- lr\<close> times it; then the bar's counter is
  set to the number of gradient rows of norm below 0.025 and the bar is drawn. The
  step returns the changed model and the changed object.
\<close>

definition grad_update ::
  "'m LinearModel_ops \<Rightarrow> 'd ReferenceClass \<Rightarrow> 'm \<Rightarrow> real tensor \<Rightarrow> real tensor
   \<Rightarrow> error + ('m \<times> 'd ReferenceClass)" where
  "grad_update ops self lin_model labels features =
     bindE (tensor_t labels) (\<lambda>y.
       let proj_grads = proj_grad ops lin_model features y;
           lin_model' = update ops lin_model (scalar_mul (- lr self) proj_grads)
       in case converged_bar self of
            None \<Rightarrow> Inl AttributeError
          | Some bar \<Rightarrow>
              Inr (lin_model',
                   self\<lparr>converged_bar := Some (bar
                     \<lparr>bar_n := count_below (norm_last proj_grads) 0.025,
                      bar_refreshes := Suc (bar_refreshes bar)\<rparr>)\<rparr>))"

text \<open>\<^verbatim>\<open>for i in range(k): body\<close>, where the body does not read \<open>i\<close>.\<close>

fun for_range :: "nat \<Rightarrow> ('s \<Rightarrow> error + 's) \<Rightarrow> 's \<Rightarrow> error + 's" where
  "for_range 0 body s = Inr s"
| "for_range (Suc k) body s = bindE (body s) (for_range k body)"

text \<open>The change one gradient step makes to the model, by itself.\<close>

definition gradient_step ::
  "'m LinearModel_ops \<Rightarrow> real \<Rightarrow> real tensor \<Rightarrow> real tensor \<Rightarrow> 'm \<Rightarrow> 'm" where
  "gradient_step ops rate features y m =
     update ops m (scalar_mul (- rate) (proj_grad ops m features y))"

text \<open>
  \<^verbatim>\<open>ReferenceClass.PGDOptim\<close>. Its iteration runs on the object, the model and, with
  a validation split, the best weights and errors. The body without validation is one
  gradient step; the body with validation is a gradient step, the error rates of the
  updated model on the validation split, and the merge into the best so far.
\<close>

definition PGD_body ::
  "'m LinearModel_ops \<Rightarrow> real tensor \<Rightarrow> real tensor
   \<Rightarrow> 'd ReferenceClass \<times> 'm \<Rightarrow> error + ('d ReferenceClass \<times> 'm)" where
  "PGD_body ops labels_train features_train =
     (\<lambda>(self, lin_model).
        bindE (grad_update ops self lin_model labels_train features_train)
          (\<lambda>(lin_model, self). Inr (self, lin_model)))"

definition PGD_val_body ::
  "'m LinearModel_ops \<Rightarrow> real tensor \<Rightarrow> real tensor \<Rightarrow> real tensor \<Rightarrow> real tensor
   \<Rightarrow> 'd ReferenceClass \<times> 'm \<times> real tensor \<times> real tensor
   \<Rightarrow> error + ('d ReferenceClass \<times> 'm \<times> real tensor \<times> real tensor)" where
  "PGD_val_body ops labels_train features_train labels_val features_val =
     (\<lambda>(self, lin_model, min_weights, min_errors).
        bindE (grad_update ops self lin_model labels_train features_train)
          (\<lambda>(lin_model, self).
        bindE (tensor_t labels_val) (\<lambda>y.
        let conditional_error_rates = conditional_one_rate ops lin_model features_val y
        in bindE (pairwise_select conditional_error_rates min_errors
                    (weights ops lin_model) min_weights)
          (\<lambda>(min_weights, min_errors).
        Inr (self, lin_model, min_weights, min_errors)))))"

text \<open>
  \<^verbatim>\<open>PGDOptim\<close> returns the model it hands back, the model object it was given (which
  the updates have changed in place) and the changed object.
\<close>

definition PGDOptim ::
  "'m LinearModel_ops \<Rightarrow> 'd Dataset_ops \<Rightarrow> 'd ReferenceClass \<Rightarrow> 'm \<Rightarrow> 'd Subset \<Rightarrow> 'd Subset option
   \<Rightarrow> error + ('m \<times> 'm \<times> 'd ReferenceClass)" where
  "PGDOptim ops dops self lin_model train val =
     (case subset_all dops train of (labels_train, features_train) \<Rightarrow>
      bindE
        (case val of
           Some dataset_val' \<Rightarrow>
             (case subset_all dops dataset_val' of (labels_val, features_val) \<Rightarrow>
              case error_tracker (size_model ops lin_model) (device self) of
                (min_weights, min_errors) \<Rightarrow>
              bindE
                (for_range (nat (num_iter self))
                   (PGD_val_body ops labels_train features_train labels_val features_val)
                   (self, lin_model, min_weights, min_errors))
                (\<lambda>(self, lin_model, min_weights, min_errors).
                   Inr (new_model ops min_weights, lin_model, self)))
         | None \<Rightarrow>
             bindE
               (for_range (nat (num_iter self))
                  (PGD_body ops labels_train features_train)
                  (self, lin_model))
               (\<lambda>(self, lin_model). Inr (lin_model, lin_model, self)))
        (\<lambda>(result, lin_model, self).
           case converged_bar self of
             None \<Rightarrow> Inl AttributeError
           | Some bar \<Rightarrow>
               Inr (result, lin_model, self\<lparr>converged_bar := Some (bar\<lparr>bar_closed := True\<rparr>)\<rparr>)))"

section \<open>Selection\<close>


section \<open>A small instance\<close>

text \<open>
  A linear model that is just its weight tensor: its gradient is the weight tensor
  itself, an update adds the delta entry by entry, the error rates are a given function
  of the weights, and reduction gathers as described. A dataset that is a pair of
  tables (labels, features), read by rows.
\<close>

definition example_ops :: "(real tensor \<Rightarrow> real tensor) \<Rightarrow> real tensor LinearModel_ops" where
  "example_ops rates =
     \<lparr>new_model = (\<lambda>t. t), size_model = shape, weights = (\<lambda>m. m),
      proj_grad = (\<lambda>m X y. m),
      update = (\<lambda>m delta. Tensor (shape m) (map2 (\<lambda>x y. x + y) (elems m) (elems delta))),
      conditional_one_rate = (\<lambda>m X y. rates m),
      reduce = (\<lambda>m ids k. reduce_spec m ids k)\<rparr>"

definition take_rows :: "'a tensor \<Rightarrow> nat list \<Rightarrow> 'a tensor" where
  "take_rows t ids =
     (let w = numel (tl (shape t))
      in Tensor (length ids # tl (shape t))
           (concat (map (\<lambda>i. take w (drop (i * w) (elems t))) ids)))"

definition example_dops :: "(real tensor \<times> real tensor) Dataset_ops" where
  "example_dops =
     \<lparr>len_dataset = (\<lambda>d. numel (take 1 (shape (fst d)))),
      dim_feature = (\<lambda>d. numel (tl (shape (snd d)))),
      dim_label = (\<lambda>d. numel (tl (shape (fst d)))),
      getitem = (\<lambda>d ids. (take_rows (fst d) ids, take_rows (snd d) ids))\<rparr>"

definition example_dataset :: "real tensor \<times> real tensor" where
  "example_dataset =
     (Tensor [4, 2] [0, 1, 1, 0, 1, 1, 0, 0], Tensor [4, 2] [1, 2, 3, 4, 5, 6, 7, 8])"

definition example_self :: "(real tensor \<times> real tensor) Subset option
    \<Rightarrow> (real tensor \<times> real tensor) ReferenceClass" where
  "example_self val =
     \<lparr>header = ''demo learning reference class -'', num_iter = 2, lr = 1 / 2, device = ''cpu'',
      dataset_train = \<lparr>sub_dataset = example_dataset, sub_indices = [2, 0]\<rparr>,
      dataset_val = val,
      dataset_eval = \<lparr>sub_dataset = example_dataset, sub_indices = [3]\<rparr>,
      converged_bar = Some (tqdm_new 4 ''demo learning reference class - converging'')\<rparr>"

definition example_observations :: "real tensor" where
  "example_observations = Tensor [2, 2, 2] [8, 0, 0, 4, 4, 4, 0, 0]"

section \<open>Indexing lemmas\<close>

lemma concat_blocks:
  "concat (map (\<lambda>i. map (\<lambda>k. i * p + k) [0..<p]) [0..<n]) = [0..<n * p]"
proof (induction n)
  case 0 show ?case by simp
next
  case (Suc n)
  have a: "map (\<lambda>k. n * p + k) [0..<p] = [n * p..<n * p + p]"
    using map_add_upt [of "n * p" p] by (simp add: add.commute)
  have b: "[0..<n * p + p] = [0..<n * p] @ [n * p..<n * p + p]"
    by (rule upt_add_eq_append) simp
  have "concat (map (\<lambda>i. map (\<lambda>k. i * p + k) [0..<p]) [0..<Suc n])
      = [0..<n * p] @ map (\<lambda>k. n * p + k) [0..<p]" using Suc by simp
  also have "\<dots> = [0..<n * p + p]" unfolding a b ..
  also have "n * p + p = Suc n * p" by simp
  finally show ?case .
qed

lemma map_flat_all_indices: "map (flat_index s) (all_indices s) = [0..<numel s]"
proof (induction s)
  case Nil show ?case by (simp add: numel_def)
next
  case (Cons d s)
  have "map (flat_index (d # s)) (all_indices (d # s))
      = concat (map (\<lambda>i. map (\<lambda>k. i * numel s + k) (map (flat_index s) (all_indices s))) [0..<d])"
    by (simp add: map_concat o_def)
  also have "\<dots> = [0..<d * numel s]" unfolding Cons.IH by (rule concat_blocks)
  finally show ?case by (simp add: numel_def)
qed

lemma length_all_indices: "length (all_indices s) = numel s"
  using arg_cong [OF map_flat_all_indices, of length s] by simp

lemma set_all_indices: "set (all_indices s) = {idx. valid_index s idx}"
proof (induction s)
  case Nil show ?case by (auto simp: valid_index_def)
next
  case (Cons d s)
  show ?case using Cons by (auto simp: valid_index_def list_all2_Cons2)
qed

lemma flat_index_nth: "k < numel s \<Longrightarrow> flat_index s (all_indices s ! k) = k"
  using arg_cong [OF map_flat_all_indices, of "\<lambda>xs. xs ! k" s]
  by (simp add: length_all_indices)

lemma valid_index_nth:
  assumes "valid_index s idx"
  shows "flat_index s idx < numel s \<and> all_indices s ! flat_index s idx = idx"
proof -
  from assms have "idx \<in> set (all_indices s)" by (simp add: set_all_indices)
  then obtain k where k: "k < numel s" "all_indices s ! k = idx"
    by (auto simp: in_set_conv_nth length_all_indices)
  from flat_index_nth [OF k(1)] k(2) have "flat_index s idx = k" by simp
  with k show ?thesis by simp
qed

lemma tabulate_at: 
  assumes "valid_index s idx" shows "at_idx (tabulate s g) idx = g idx"
  using valid_index_nth [OF assms]
  by (simp add: at_idx_def tabulate_def length_all_indices)

lemma tabulate_self:
  assumes "wf_tensor t" shows "tabulate (shape t) (at_idx t) = t"
proof -
  have len: "numel (shape t) = length (elems t)" using assms by (simp add: wf_tensor_def)
  have "map (at_idx t) (all_indices (shape t))
      = map ((!) (elems t)) (map (flat_index (shape t)) (all_indices (shape t)))"
    by (simp add: at_idx_def o_def)
  also have "\<dots> = map ((!) (elems t)) [0..<length (elems t)]"
    unfolding map_flat_all_indices len ..
  also have "\<dots> = elems t" by (rule map_nth)
  finally show ?thesis by (cases t) (simp add: tabulate_def)
qed


lemma tabulate_cong: "(\<And>idx. valid_index s idx \<Longrightarrow> f idx = g idx) \<Longrightarrow> tabulate s f = tabulate s g"
  by (simp add: tabulate_def set_all_indices)

section \<open>Broadcasting lemmas\<close>

lemma broadcast_rev_same: "broadcast_rev xs xs = Some xs"
  by (induction xs) auto


lemma broadcast_index_rev_id:
  "list_all2 (\<lambda>i d. i < d) idx s \<Longrightarrow> broadcast_index_rev s idx = idx"
  by (induction idx s rule: list_all2_induct) auto


lemma valid_index_rev: "valid_index s idx = list_all2 (\<lambda>i d. i < d) (rev idx) (rev s)"
  by (simp add: valid_index_def list_all2_rev)


lemma broadcast_index_id: "valid_index s idx \<Longrightarrow> broadcast_index s idx = idx"
  by (simp add: valid_index_rev broadcast_index_def broadcast_index_rev_id)

lemma broadcast_shapes_same: "broadcast_shapes s s = Some s"
  by (simp add: broadcast_shapes_def broadcast_rev_same)


lemma broadcast_shapes_unsq: "broadcast_shapes (s @ [d]) (s @ [Suc 0]) = Some (s @ [d])"
  by (simp add: broadcast_shapes_def broadcast_rev_same)

lemma broadcast_index_unsq:
  "valid_index (s @ [d]) idx \<Longrightarrow> broadcast_index (s @ [Suc 0]) idx = butlast idx @ [0]"
proof -
  assume v: "valid_index (s @ [d]) idx"
  then obtain idx' i where idx: "idx = idx' @ [i]" and v': "valid_index s idx'"
    by (auto simp: valid_index_def list_all2_append2 list_all2_Cons2)
  then show ?thesis
    by (simp add: broadcast_index_def valid_index_rev broadcast_index_rev_id)
qed

lemma numel_append: "numel (s @ t) = numel s * numel t"
  by (simp add: numel_def)

lemma flat_index_unsq:
  "valid_index s idx \<Longrightarrow> flat_index (s @ [Suc 0]) (idx @ [0]) = flat_index s idx"
  unfolding valid_index_def
  by (induction idx s rule: list_all2_induct) (auto simp: numel_append numel_def)

lemma at_unsqueeze_last:
  "valid_index (shape t) idx \<Longrightarrow> at_idx (unsqueeze_last t) (idx @ [0]) = at_idx t idx"
  by (simp add: at_idx_def unsqueeze_last_def flat_index_unsq)


lemma at_idx_in_set:
  "wf_tensor t \<Longrightarrow> valid_index (shape t) idx \<Longrightarrow> at_idx t idx \<in> set (elems t)"
  using valid_index_nth [of "shape t" idx] by (simp add: at_idx_def wf_tensor_def)




lemma pointwise_same:
  "shape a = s \<Longrightarrow> shape b = s \<Longrightarrow>
   pointwise f a b = Inr (tabulate s (\<lambda>idx. f (at_idx a idx) (at_idx b idx)))"
  by (auto simp: pointwise_def broadcast_shapes_same broadcast_index_id intro: tabulate_cong)

lemma pointwise_unsq:
  "shape a = s @ [d] \<Longrightarrow> shape b = s @ [Suc 0] \<Longrightarrow>
   pointwise f a b = Inr (tabulate (s @ [d]) (\<lambda>idx. f (at_idx a idx) (at_idx b (butlast idx @ [0]))))"
  by (auto simp: pointwise_def broadcast_shapes_unsq broadcast_index_id broadcast_index_unsq
           intro: tabulate_cong)

section \<open>The merge is a selection\<close>

lemma shape_tabulate [simp]: "shape (tabulate s g) = s"
  by (simp add: tabulate_def)

lemma tensor_not_tabulate: "tensor_not (tabulate s g) = tabulate s (\<lambda>idx. \<not> g idx)"
  by (simp add: tensor_not_def tabulate_def)

lemma shape_unsqueeze_last [simp]: "shape (unsqueeze_last t) = shape t @ [Suc 0]"
  by (simp add: unsqueeze_last_def)

lemma shape_tensor_not [simp]: "shape (tensor_not t) = shape t"
  by (simp add: tensor_not_def)

lemma unsqueeze_last_not: "unsqueeze_last (tensor_not t) = tensor_not (unsqueeze_last t)"
  by (simp add: tensor_not_def unsqueeze_last_def)

lemma valid_index_butlast:
  "valid_index (s @ [d]) idx \<Longrightarrow> valid_index s (butlast idx)"
  by (auto simp: valid_index_def list_all2_append2 list_all2_Cons2)

lemma at_unsq_tabulate:
  "valid_index (s @ [d]) idx \<Longrightarrow>
   at_idx (unsqueeze_last (tabulate s g)) (butlast idx @ [0]) = g (butlast idx)"
  using at_unsqueeze_last [of "tabulate s g" "butlast idx"]
  by (simp add: valid_index_butlast tabulate_at)

lemma pairwise_select_where:
  assumes ce: "shape curr_error = s" and me: "shape min_error = s"
    and cw: "shape curr_weight = s @ [d]" and mw: "shape min_weight = s @ [d]"
  shows "pairwise_select curr_error min_error curr_weight min_weight
       = Inr (where_weight curr_error min_error curr_weight min_weight,
              where_error curr_error min_error)"
proof -
  define ind where "ind = tabulate s (\<lambda>idx. at_idx curr_error idx < at_idx min_error idx)"
  define e1 where "e1 = tabulate s (\<lambda>idx. at_idx min_error idx
               * of_bool (\<not> at_idx curr_error idx < at_idx min_error idx))"
  define e2 where "e2 = tabulate s (\<lambda>idx. at_idx curr_error idx
               * of_bool (at_idx curr_error idx < at_idx min_error idx))"
  define w1 where "w1 = tabulate (s @ [d]) (\<lambda>idx. at_idx min_weight idx
               * of_bool (\<not> at_idx curr_error (butlast idx) < at_idx min_error (butlast idx)))"
  define w2 where "w2 = tabulate (s @ [d]) (\<lambda>idx. at_idx curr_weight idx
               * of_bool (at_idx curr_error (butlast idx) < at_idx min_error (butlast idx)))"
  have lt: "tensor_lt curr_error min_error = Inr ind"
    unfolding tensor_lt_def ind_def by (rule pointwise_same [OF ce me])
  have "tensor_mul_mask min_error (tensor_not ind)
      = Inr (tabulate s (\<lambda>idx. at_idx min_error idx * of_bool (at_idx (tensor_not ind) idx)))"
    unfolding tensor_mul_mask_def by (rule pointwise_same [OF me]) (simp add: ind_def)
  also have "tabulate s (\<lambda>idx. at_idx min_error idx * of_bool (at_idx (tensor_not ind) idx)) = e1"
    unfolding e1_def by (rule tabulate_cong) (simp add: ind_def tensor_not_tabulate tabulate_at)
  finally have m1: "tensor_mul_mask min_error (tensor_not ind) = Inr e1" .
  have "tensor_mul_mask curr_error ind
      = Inr (tabulate s (\<lambda>idx. at_idx curr_error idx * of_bool (at_idx ind idx)))"
    unfolding tensor_mul_mask_def by (rule pointwise_same [OF ce]) (simp add: ind_def)
  also have "tabulate s (\<lambda>idx. at_idx curr_error idx * of_bool (at_idx ind idx)) = e2"
    unfolding e2_def by (rule tabulate_cong) (simp add: ind_def tabulate_at)
  finally have m2: "tensor_mul_mask curr_error ind = Inr e2" .
  have "tensor_add e1 e2 = Inr (tabulate s (\<lambda>idx. at_idx e1 idx + at_idx e2 idx))"
    unfolding tensor_add_def by (rule pointwise_same) (simp_all add: e1_def e2_def)
  also have "tabulate s (\<lambda>idx. at_idx e1 idx + at_idx e2 idx) = where_error curr_error min_error"
    unfolding where_error_def me
    by (rule tabulate_cong) (simp add: e1_def e2_def tabulate_at)
  finally have a1: "tensor_add e1 e2 = Inr (where_error curr_error min_error)" .
  have "tensor_mul_mask min_weight (tensor_not (unsqueeze_last ind))
      = Inr (tabulate (s @ [d]) (\<lambda>idx. at_idx min_weight idx
               * of_bool (at_idx (tensor_not (unsqueeze_last ind)) (butlast idx @ [0]))))"
    unfolding tensor_mul_mask_def by (rule pointwise_unsq [OF mw]) (simp add: ind_def)
  also have "tabulate (s @ [d]) (\<lambda>idx. at_idx min_weight idx
               * of_bool (at_idx (tensor_not (unsqueeze_last ind)) (butlast idx @ [0]))) = w1"
    unfolding w1_def
    by (rule tabulate_cong)
       (simp add: ind_def unsqueeze_last_not [symmetric] tensor_not_tabulate at_unsq_tabulate)
  finally have m3: "tensor_mul_mask min_weight (tensor_not (unsqueeze_last ind)) = Inr w1" .
  have "tensor_mul_mask curr_weight (unsqueeze_last ind)
      = Inr (tabulate (s @ [d]) (\<lambda>idx. at_idx curr_weight idx
               * of_bool (at_idx (unsqueeze_last ind) (butlast idx @ [0]))))"
    unfolding tensor_mul_mask_def by (rule pointwise_unsq [OF cw]) (simp add: ind_def)
  also have "tabulate (s @ [d]) (\<lambda>idx. at_idx curr_weight idx
               * of_bool (at_idx (unsqueeze_last ind) (butlast idx @ [0]))) = w2"
    unfolding w2_def by (rule tabulate_cong) (simp add: ind_def at_unsq_tabulate)
  finally have m4: "tensor_mul_mask curr_weight (unsqueeze_last ind) = Inr w2" .
  have "tensor_add w1 w2 = Inr (tabulate (s @ [d]) (\<lambda>idx. at_idx w1 idx + at_idx w2 idx))"
    unfolding tensor_add_def by (rule pointwise_same) (simp_all add: w1_def w2_def)
  also have "tabulate (s @ [d]) (\<lambda>idx. at_idx w1 idx + at_idx w2 idx)
      = where_weight curr_error min_error curr_weight min_weight"
    unfolding where_weight_def mw
    by (rule tabulate_cong) (simp add: w1_def w2_def tabulate_at)
  finally have a2: "tensor_add w1 w2 = Inr (where_weight curr_error min_error curr_weight min_weight)" .
  show ?thesis
    by (simp add: pairwise_select_def bindE_def lt m1 m2 a1 m3 m4 a2)
qed





section \<open>The tracker\<close>

lemma numel_filter: "numel (filter (\<lambda>d. d \<noteq> Suc 0) s) = numel s"
  by (induction s) (auto simp: numel_def)

lemma error_tracker_eq:
  "error_tracker weight_shape dev
     = (torch_zeros (filter (\<lambda>d. d \<noteq> 1) weight_shape),
        torch_ones (filter (\<lambda>d. d \<noteq> 1) (butlast weight_shape)))"
  by (simp add: error_tracker_def squeeze_def torch_zeros_def torch_ones_def numel_filter)

text \<open>
  Claim C7, as amended. The tracker's best weights are the all-zero tensor of the weight
  shape with every dimension of size 1 removed (leading, inner or trailing alike), and
  its best errors are the all-ones tensor of the weight shape without its last dimension,
  again with every dimension of size 1 removed.
\<close>

theorem error_tracker_squeezed:
  "error_tracker weight_shape dev
     = (torch_zeros (filter (\<lambda>d. d \<noteq> 1) weight_shape),
        torch_ones (filter (\<lambda>d. d \<noteq> 1) (butlast weight_shape)))"
  by (rule error_tracker_eq)

text \<open>
  Claim C7 as stated fails for a weight shape with a leading singleton: for a single
  observation, three predictors and four features the tracker's weights have shape
  \<open>[3, 4]\<close> and its errors shape \<open>[3]\<close>, not \<open>[1, 3, 4]\<close> and \<open>[1, 3]\<close>.
\<close>

theorem error_tracker_leading_singleton:
  "error_tracker [1, 3, 4] ''cpu'' \<noteq> error_tracker_described [1, 3, 4]
   \<and> shape (fst (error_tracker [1, 3, 4] ''cpu'')) = [3, 4]
   \<and> shape (fst (error_tracker_described [1, 3, 4])) = [1, 3, 4]
   \<and> shape (snd (error_tracker [1, 3, 4] ''cpu'')) = [3]
   \<and> shape (snd (error_tracker_described [1, 3, 4])) = [1, 3]"
  by (simp add: error_tracker_def error_tracker_described_def squeeze_def torch_zeros_def
        torch_ones_def collapse_trailing_def)

section \<open>The best error never grows\<close>

lemma bindE_Inr: "bindE m f = Inr y \<longleftrightarrow> (\<exists>x. m = Inr x \<and> f x = Inr y)"
  by (cases m) (simp_all add: bindE_def)

lemma bindE_simps [simp]: "bindE (Inr x) f = f x" "bindE (Inl e) f = Inl e"
  by (simp_all add: bindE_def)











lemma grad_update_Some:
  assumes "converged_bar self = Some bar" "tensor_t labels = Inr y"
  shows "grad_update ops self lin_model labels features
       = Inr (update ops lin_model (scalar_mul (- lr self) (proj_grad ops lin_model features y)),
              self\<lparr>converged_bar := Some (bar
                 \<lparr>bar_n := count_below (norm_last (proj_grad ops lin_model features y)) 0.025,
                  bar_refreshes := Suc (bar_refreshes bar)\<rparr>)\<rparr>)"
  using assms by (simp add: grad_update_def Let_def)




lemma ex3_t: "tensor_t (Tensor [2, 2] [a, b, c, d]) = Inr (Tensor [2, 2] [a, c, b, d])"
  by (simp add: tensor_t_def tabulate_def at_idx_def numel_def upt_conv_Cons)



section \<open>Construction: errors and partition\<close>



















section \<open>The gradient step\<close>




lemma shape_scalar_mul [simp]: "shape (scalar_mul c a) = shape a"
  by (simp add: scalar_mul_def)



lemma ex_bar: "converged_bar (example_self v)
      = Some (tqdm_new 4 ''demo learning reference class - converging'')"
  by (simp add: example_self_def)


lemma ex_obs_wf: "shape example_observations = [2, 2, 2]" "wf_tensor example_observations"
  by (simp_all add: example_observations_def wf_tensor_def numel_def)


section \<open>The loop runs its full count\<close>

lemma PGD_body_step:
  assumes "converged_bar self = Some bar" "tensor_t labels_train = Inr y"
  shows "PGD_body ops labels_train features_train (self, lin_model)
       = Inr (self\<lparr>converged_bar := Some (bar
                \<lparr>bar_n := count_below (norm_last (proj_grad ops lin_model features_train y)) 0.025,
                 bar_refreshes := Suc (bar_refreshes bar)\<rparr>)\<rparr>,
              gradient_step ops (lr self) features_train y lin_model)"
  by (simp add: PGD_body_def grad_update_Some [OF assms] gradient_step_def)

lemma for_range_PGD_body:
  assumes "converged_bar self = Some bar" "tensor_t labels_train = Inr y"
  shows "\<exists>bar'. for_range k (PGD_body ops labels_train features_train) (self, lin_model)
       = Inr (self\<lparr>converged_bar := Some bar'\<rparr>,
              (gradient_step ops (lr self) features_train y ^^ k) lin_model)
     \<and> bar_refreshes bar' = bar_refreshes bar + k \<and> bar_closed bar' = bar_closed bar"
  using assms(1)
proof (induction k arbitrary: self bar lin_model)
  case 0
  then show ?case by (cases self) auto
next
  case (Suc k)
  let ?self1 = "self\<lparr>converged_bar := Some (bar
                \<lparr>bar_n := count_below (norm_last (proj_grad ops lin_model features_train y)) 0.025,
                 bar_refreshes := Suc (bar_refreshes bar)\<rparr>)\<rparr>"
  have "converged_bar ?self1 = Some (bar
                \<lparr>bar_n := count_below (norm_last (proj_grad ops lin_model features_train y)) 0.025,
                 bar_refreshes := Suc (bar_refreshes bar)\<rparr>)" by simp
  from Suc.IH [OF this, of "gradient_step ops (lr self) features_train y lin_model"]
  show ?case
    by (auto simp: PGD_body_step [OF Suc.prems assms(2)] funpow_swap1)
qed

lemma PGD_val_body_Inr:
  assumes "PGD_val_body ops labels_train features_train labels_val features_val
             (self, lin_model, min_weights, min_errors) = Inr (self', lin_model', min_weights', min_errors')"
    and "converged_bar self = Some bar" "tensor_t labels_train = Inr y"
  shows "lin_model' = gradient_step ops (lr self) features_train y lin_model"
    and "self' = self\<lparr>converged_bar := Some (bar
                \<lparr>bar_n := count_below (norm_last (proj_grad ops lin_model features_train y)) 0.025,
                 bar_refreshes := Suc (bar_refreshes bar)\<rparr>)\<rparr>"
    and "\<exists>yv. tensor_t labels_val = Inr yv
          \<and> pairwise_select (conditional_one_rate ops lin_model' features_val yv) min_errors
                (weights ops lin_model') min_weights = Inr (min_weights', min_errors')"
  using assms(1)
  by (auto simp: PGD_val_body_def grad_update_Some [OF assms(2,3)] gradient_step_def bindE_Inr Let_def)

lemma for_range_PGD_val_body_live:
  assumes "for_range k (PGD_val_body ops labels_train features_train labels_val features_val)
             (self, lin_model, min_weights, min_errors) = Inr (self', lin_model', min_weights', min_errors')"
    and "converged_bar self = Some bar" "tensor_t labels_train = Inr y"
  shows "lin_model' = (gradient_step ops (lr self) features_train y ^^ k) lin_model
      \<and> (\<exists>bar'. self' = self\<lparr>converged_bar := Some bar'\<rparr>
            \<and> bar_refreshes bar' = bar_refreshes bar + k \<and> bar_closed bar' = bar_closed bar)"
  using assms(1,2)
proof (induction k arbitrary: self bar lin_model min_weights min_errors)
  case 0
  then show ?case by (cases self) auto
next
  case (Suc k)
  from Suc.prems(1) obtain s1 l1 w1 e1 where
    b: "PGD_val_body ops labels_train features_train labels_val features_val
          (self, lin_model, min_weights, min_errors) = Inr (s1, l1, w1, e1)"
    and r: "for_range k (PGD_val_body ops labels_train features_train labels_val features_val)
          (s1, l1, w1, e1) = Inr (self', lin_model', min_weights', min_errors')"
    by (auto simp: bindE_Inr)
  note st = PGD_val_body_Inr(1,2) [OF b Suc.prems(2) assms(3)]
  have c: "converged_bar s1 = Some (bar
                \<lparr>bar_n := count_below (norm_last (proj_grad ops lin_model features_train y)) 0.025,
                 bar_refreshes := Suc (bar_refreshes bar)\<rparr>)"
    by (simp add: st(2))
  from Suc.IH [OF r c] show ?case
    by (auto simp: st funpow_swap1)
qed

text \<open>
  Claim C6. The optimizer makes exactly \<open>num_iter\<close> gradient steps, whatever the
  gradients are. Without a validation split it always returns, and what it returns is
  the given model after \<open>num_iter\<close> steps. With a validation split, whenever it returns,
  the model object it was given has gone through \<open>num_iter\<close> steps. In both modes the
  progress bar has been drawn \<open>num_iter\<close> more times than before, once per step.
\<close>

theorem PGDOptim_iterations:
  assumes "converged_bar self = Some bar" and "subset_all dops train = (labels_train, features_train)"
    and "tensor_t labels_train = Inr y"
  shows "(\<exists>self'. PGDOptim ops dops self lin_model train None
            = Inr ((gradient_step ops (lr self) features_train y ^^ nat (num_iter self)) lin_model,
                   (gradient_step ops (lr self) features_train y ^^ nat (num_iter self)) lin_model,
                   self')
          \<and> map_option bar_refreshes (converged_bar self')
              = Some (bar_refreshes bar + nat (num_iter self)))
       \<and> (\<forall>val selectors lin_model' self'.
            PGDOptim ops dops self lin_model train (Some val) = Inr (selectors, lin_model', self')
            \<longrightarrow> lin_model'
                  = (gradient_step ops (lr self) features_train y ^^ nat (num_iter self)) lin_model
              \<and> map_option bar_refreshes (converged_bar self')
                  = Some (bar_refreshes bar + nat (num_iter self)))"
proof (rule conjI)
  from for_range_PGD_body [OF assms(1,3), of "nat (num_iter self)" ops features_train lin_model]
  obtain bar' where
    r: "for_range (nat (num_iter self)) (PGD_body ops labels_train features_train) (self, lin_model)
       = Inr (self\<lparr>converged_bar := Some bar'\<rparr>,
              (gradient_step ops (lr self) features_train y ^^ nat (num_iter self)) lin_model)"
    and b: "bar_refreshes bar' = bar_refreshes bar + nat (num_iter self)"
    by blast
  show "\<exists>self'. PGDOptim ops dops self lin_model train None
            = Inr ((gradient_step ops (lr self) features_train y ^^ nat (num_iter self)) lin_model,
                   (gradient_step ops (lr self) features_train y ^^ nat (num_iter self)) lin_model,
                   self')
          \<and> map_option bar_refreshes (converged_bar self')
              = Some (bar_refreshes bar + nat (num_iter self))"
    by (simp add: PGDOptim_def assms(2) r b)
next
  show "\<forall>val selectors lin_model' self'.
            PGDOptim ops dops self lin_model train (Some val) = Inr (selectors, lin_model', self')
            \<longrightarrow> lin_model'
                  = (gradient_step ops (lr self) features_train y ^^ nat (num_iter self)) lin_model
              \<and> map_option bar_refreshes (converged_bar self')
                  = Some (bar_refreshes bar + nat (num_iter self))"
  proof (intro allI impI)
  fix val selectors lin_model' self'
  assume run: "PGDOptim ops dops self lin_model train (Some val) = Inr (selectors, lin_model', self')"
  obtain labels_val features_val where v: "subset_all dops val = (labels_val, features_val)"
    by (cases "subset_all dops val")
  obtain w0 e0 where t: "error_tracker (size_model ops lin_model) (device self) = (w0, e0)"
    by (cases "error_tracker (size_model ops lin_model) (device self)")
  from run obtain s1 l1 w1 e1 bar1 where
    loop: "for_range (nat (num_iter self))
             (PGD_val_body ops labels_train features_train labels_val features_val)
             (self, lin_model, w0, e0) = Inr (s1, l1, w1, e1)"
    and c: "converged_bar s1 = Some bar1"
    and res: "lin_model' = l1" "self' = s1\<lparr>converged_bar := Some (bar1\<lparr>bar_closed := True\<rparr>)\<rparr>"
    by (auto simp: PGDOptim_def assms(2) v t bindE_Inr split: option.splits)
  from for_range_PGD_val_body_live [OF loop assms(1,3)] c res
  show "lin_model'
          = (gradient_step ops (lr self) features_train y ^^ nat (num_iter self)) lin_model
      \<and> map_option bar_refreshes (converged_bar self')
          = Some (bar_refreshes bar + nat (num_iter self))"
    by auto
  qed
qed

section \<open>When no validation error beats the sentinel\<close>

lemma wf_tensor_not [simp]: "wf_tensor (tensor_not t) = wf_tensor t"
  by (simp add: wf_tensor_def tensor_not_def)

lemma elems_unsqueeze_last [simp]: "elems (unsqueeze_last t) = elems t"
  by (simp add: unsqueeze_last_def)

lemma elems_tensor_not [simp]: "elems (tensor_not t) = map Not (elems t)"
  by (simp add: tensor_not_def)




lemma tabulate_const: "tabulate s (\<lambda>idx. c) = Tensor s (replicate (numel s) c)"
  by (simp add: tabulate_def map_replicate_const length_all_indices)

lemma at_torch_ones: "valid_index s idx \<Longrightarrow> at_idx (torch_ones s) idx = 1"
  using valid_index_nth [of s idx] by (simp add: at_idx_def torch_ones_def)

lemma at_torch_zeros: "valid_index s idx \<Longrightarrow> at_idx (torch_zeros s) idx = 0"
  using valid_index_nth [of s idx] by (simp add: at_idx_def torch_zeros_def)

lemma shape_torch [simp]: "shape (torch_ones s) = s" "shape (torch_zeros s) = s"
  by (simp_all add: torch_ones_def torch_zeros_def)

lemma pairwise_select_sentinel_typed:
  assumes s: "shape curr_error = s" and wf: "wf_tensor curr_error"
    and ce: "\<forall>x \<in> set (elems curr_error). 1 \<le> x" and cw: "shape curr_weight = s @ [d]"
  shows "pairwise_select curr_error (torch_ones s) curr_weight (torch_zeros (s @ [d]))
       = Inr (torch_zeros (s @ [d]), torch_ones s)"
proof -
  have ge: "\<not> at_idx curr_error idx < 1" if "valid_index s idx" for idx
    using at_idx_in_set [OF wf, of idx] that s ce by fastforce
  have "where_error curr_error (torch_ones s) = tabulate s (\<lambda>idx. 1)"
    unfolding where_error_def shape_torch
    by (rule tabulate_cong) (simp add: at_torch_ones ge)
  then have e: "where_error curr_error (torch_ones s) = torch_ones s"
    by (simp add: tabulate_const torch_ones_def)
  have "where_weight curr_error (torch_ones s) curr_weight (torch_zeros (s @ [d]))
      = tabulate (s @ [d]) (\<lambda>idx. 0)"
    unfolding where_weight_def shape_torch
    by (rule tabulate_cong)
       (simp add: at_torch_ones at_torch_zeros ge valid_index_butlast)
  then have w: "where_weight curr_error (torch_ones s) curr_weight (torch_zeros (s @ [d]))
      = torch_zeros (s @ [d])"
    by (simp add: tabulate_const torch_zeros_def)
  show ?thesis
    using pairwise_select_where [OF s _ cw, of "torch_ones s" "torch_zeros (s @ [d])"]
    by (simp add: e w)
qed

lemma for_range_sentinel_typed:
  assumes "converged_bar self = Some bar" "tensor_t labels_train = Inr y" "tensor_t labels_val = Inr yv"
    and "\<forall>i < k. shape (conditional_one_rate ops
                 ((gradient_step ops (lr self) features_train y ^^ Suc i) lin_model) features_val yv) = s
             \<and> wf_tensor (conditional_one_rate ops
                 ((gradient_step ops (lr self) features_train y ^^ Suc i) lin_model) features_val yv)
             \<and> (\<forall>x \<in> set (elems (conditional_one_rate ops
                 ((gradient_step ops (lr self) features_train y ^^ Suc i) lin_model) features_val yv)).
                   1 \<le> x)
             \<and> shape (weights ops
                 ((gradient_step ops (lr self) features_train y ^^ Suc i) lin_model)) = s @ [d]"
  shows "\<exists>bar'. for_range k (PGD_val_body ops labels_train features_train labels_val features_val)
             (self, lin_model, torch_zeros (s @ [d]), torch_ones s)
          = Inr (self\<lparr>converged_bar := Some bar'\<rparr>,
                 (gradient_step ops (lr self) features_train y ^^ k) lin_model,
                 torch_zeros (s @ [d]), torch_ones s)
        \<and> bar_refreshes bar' = bar_refreshes bar + k \<and> bar_closed bar' = bar_closed bar"
  using assms(1,4)
proof (induction k arbitrary: self bar lin_model)
  case 0
  then show ?case by (cases self) auto
next
  case (Suc k)
  let ?S = "gradient_step ops (lr self) features_train y"
  let ?l1 = "?S lin_model"
  let ?s1 = "self\<lparr>converged_bar := Some (bar
                \<lparr>bar_n := count_below (norm_last (proj_grad ops lin_model features_train y)) 0.025,
                 bar_refreshes := Suc (bar_refreshes bar)\<rparr>)\<rparr>"
  have z: "0 < Suc k" by simp
  from Suc.prems(2) [rule_format, OF z]
  have h0: "shape (conditional_one_rate ops ?l1 features_val yv) = s"
    "wf_tensor (conditional_one_rate ops ?l1 features_val yv)"
    "\<forall>x \<in> set (elems (conditional_one_rate ops ?l1 features_val yv)). 1 \<le> x"
    "shape (weights ops ?l1) = s @ [d]"
    by simp_all
  have b: "PGD_val_body ops labels_train features_train labels_val features_val
          (self, lin_model, torch_zeros (s @ [d]), torch_ones s)
        = Inr (?s1, ?l1, torch_zeros (s @ [d]), torch_ones s)"
    by (simp add: PGD_val_body_def grad_update_Some [OF Suc.prems(1) assms(2)] assms(3)
          gradient_step_def [symmetric] pairwise_select_sentinel_typed [OF h0])
  have c: "converged_bar ?s1 = Some (bar
                \<lparr>bar_n := count_below (norm_last (proj_grad ops lin_model features_train y)) 0.025,
                 bar_refreshes := Suc (bar_refreshes bar)\<rparr>)"
    by simp
  have h: "\<forall>i < k. shape (conditional_one_rate ops
                 ((gradient_step ops (lr ?s1) features_train y ^^ Suc i) ?l1) features_val yv) = s
             \<and> wf_tensor (conditional_one_rate ops
                 ((gradient_step ops (lr ?s1) features_train y ^^ Suc i) ?l1) features_val yv)
             \<and> (\<forall>x \<in> set (elems (conditional_one_rate ops
                 ((gradient_step ops (lr ?s1) features_train y ^^ Suc i) ?l1) features_val yv)).
                   1 \<le> x)
             \<and> shape (weights ops
                 ((gradient_step ops (lr ?s1) features_train y ^^ Suc i) ?l1)) = s @ [d]"
  proof (intro allI impI)
    fix i assume "i < k"
    then have "Suc i < Suc k" by simp
    from Suc.prems(2) [rule_format, OF this]
    show "shape (conditional_one_rate ops
                 ((gradient_step ops (lr ?s1) features_train y ^^ Suc i) ?l1) features_val yv) = s
             \<and> wf_tensor (conditional_one_rate ops
                 ((gradient_step ops (lr ?s1) features_train y ^^ Suc i) ?l1) features_val yv)
             \<and> (\<forall>x \<in> set (elems (conditional_one_rate ops
                 ((gradient_step ops (lr ?s1) features_train y ^^ Suc i) ?l1) features_val yv)).
                   1 \<le> x)
             \<and> shape (weights ops
                 ((gradient_step ops (lr ?s1) features_train y ^^ Suc i) ?l1)) = s @ [d]"
      by (simp add: funpow_swap1)
  qed
  from Suc.IH [OF c h] obtain bar' where
    r: "for_range k (PGD_val_body ops labels_train features_train labels_val features_val)
             (?s1, ?l1, torch_zeros (s @ [d]), torch_ones s)
          = Inr (?s1\<lparr>converged_bar := Some bar'\<rparr>,
                 (gradient_step ops (lr ?s1) features_train y ^^ k) ?l1,
                 torch_zeros (s @ [d]), torch_ones s)"
    and rb: "bar_refreshes bar' = bar_refreshes (bar
                \<lparr>bar_n := count_below (norm_last (proj_grad ops lin_model features_train y)) 0.025,
                 bar_refreshes := Suc (bar_refreshes bar)\<rparr>) + k"
      "bar_closed bar' = bar_closed (bar
                \<lparr>bar_n := count_below (norm_last (proj_grad ops lin_model features_train y)) 0.025,
                 bar_refreshes := Suc (bar_refreshes bar)\<rparr>)"
    by blast
  show ?case
    apply (rule exI [of _ bar'])
    using rb r by (simp add: b funpow_swap1)
qed

lemma PGDOptim_sentinel_typed:
  assumes "converged_bar self = Some bar"
    and "subset_all dops train = (labels_train, features_train)"
    and "tensor_t labels_train = Inr y"
    and "subset_all dops val = (labels_val, features_val)"
    and "tensor_t labels_val = Inr yv"
    and "size_model ops lin_model = [no, np, nd]" "no \<noteq> 1" "np \<noteq> 1" "nd \<noteq> 1"
    and h: "\<forall>i < nat (num_iter self). shape (conditional_one_rate ops
                 ((gradient_step ops (lr self) features_train y ^^ Suc i) lin_model) features_val yv)
                 = [no, np]
             \<and> wf_tensor (conditional_one_rate ops
                 ((gradient_step ops (lr self) features_train y ^^ Suc i) lin_model) features_val yv)
             \<and> (\<forall>x \<in> set (elems (conditional_one_rate ops
                 ((gradient_step ops (lr self) features_train y ^^ Suc i) lin_model) features_val yv)).
                   1 \<le> x)
             \<and> shape (weights ops
                 ((gradient_step ops (lr self) features_train y ^^ Suc i) lin_model)) = [no, np] @ [nd]"
  shows "\<exists>bar'. PGDOptim ops dops self lin_model train (Some val)
                  = Inr (new_model ops (torch_zeros [no, np, nd]),
                         (gradient_step ops (lr self) features_train y ^^ nat (num_iter self))
                           lin_model,
                         self\<lparr>converged_bar := Some bar'\<rparr>)
           \<and> bar_refreshes bar' = bar_refreshes bar + nat (num_iter self)"
proof -
  have tr: "error_tracker (size_model ops lin_model) (device self)
        = (torch_zeros ([no, np] @ [nd]), torch_ones [no, np])"
    using assms(6-9) by (simp add: error_tracker_eq)
  from for_range_sentinel_typed [OF assms(1,3,5) h] obtain bar' where
    "for_range (nat (num_iter self))
        (PGD_val_body ops labels_train features_train labels_val features_val)
        (self, lin_model, torch_zeros ([no, np] @ [nd]), torch_ones [no, np])
          = Inr (self\<lparr>converged_bar := Some bar'\<rparr>,
                 (gradient_step ops (lr self) features_train y ^^ nat (num_iter self)) lin_model,
                 torch_zeros ([no, np] @ [nd]), torch_ones [no, np])"
    and "bar_refreshes bar' = bar_refreshes bar + nat (num_iter self)"
    by blast
  then show ?thesis
    by (intro exI [of _ "bar'\<lparr>bar_closed := True\<rparr>"]) (simp add: PGDOptim_def assms(2,4) tr)
qed


section \<open>The small instance, evaluated\<close>

lemma ex_train:
  "subset_all example_dops (dataset_train (example_self v))
     = (Tensor [2, 2] [1, 1, 0, 1], Tensor [2, 2] [5, 6, 1, 2])"
  by (simp add: subset_all_def example_dops_def example_self_def example_dataset_def
        take_rows_def numel_def)

lemma ex_val:
  "subset_all example_dops \<lparr>sub_dataset = example_dataset, sub_indices = [1]\<rparr>
     = (Tensor [1, 2] [1, 0], Tensor [1, 2] [3, 4])"
  by (simp add: subset_all_def example_dops_def example_dataset_def take_rows_def numel_def)


lemma ex_t_row: "tensor_t (Tensor [1, 2] [a, b]) = Inr (Tensor [2, 1] [a, b])"
  by (simp add: tensor_t_def tabulate_def at_idx_def numel_def upt_conv_Cons)

lemma map2_half: "map2 (+) xs (map (\<lambda>x. - (x / 2)) xs) = map (\<lambda>x. x / 2) (xs :: real list)"
  by (induction xs) simp_all

lemma ex_step:
  "gradient_step (example_ops r) (1 / 2) X y (Tensor s xs) = Tensor s (map (\<lambda>x. x / 2) xs)"
  by (simp add: gradient_step_def example_ops_def scalar_mul_def map2_half)

lemma ex_iterate:
  "(gradient_step (example_ops r) (1 / 2) X y ^^ k) (Tensor s xs)
     = Tensor s (map (\<lambda>x. x / 2 ^ k) xs)"
  by (induction k arbitrary: xs) (simp_all add: ex_step funpow_swap1 o_def field_simps)

lemma ex_lr: "lr (example_self v) = 1 / 2" "num_iter (example_self v) = 2"
  "dataset_val (example_self v) = v"
  by (simp_all add: example_self_def)

lemma ex_ops: "weights (example_ops r) m = m" "conditional_one_rate (example_ops r) m X y = r m"
  "size_model (example_ops r) m = shape m" "new_model (example_ops r) t = t"
  "reduce (example_ops r) m ids k = reduce_spec m ids k"
  by (simp_all add: example_ops_def)

lemma ex_two: "(gradient_step (example_ops r) (1 / 2) X y ^^ 2) example_observations
     = Tensor [2, 2, 2] [2, 0, 0, 1, 1, 1, 0, 0]"
  unfolding example_observations_def ex_iterate by simp

lemma ex_rates_ones:
  "\<forall>i < nat (num_iter (example_self v)).
     shape (conditional_one_rate (example_ops (\<lambda>m. torch_ones (butlast (shape m))))
        ((gradient_step (example_ops (\<lambda>m. torch_ones (butlast (shape m))))
            (lr (example_self v)) X y ^^ Suc i) example_observations) Xv yv) = [2, 2]
     \<and> wf_tensor (conditional_one_rate (example_ops (\<lambda>m. torch_ones (butlast (shape m))))
        ((gradient_step (example_ops (\<lambda>m. torch_ones (butlast (shape m))))
            (lr (example_self v)) X y ^^ Suc i) example_observations) Xv yv)
     \<and> (\<forall>x \<in> set (elems (conditional_one_rate (example_ops (\<lambda>m. torch_ones (butlast (shape m))))
        ((gradient_step (example_ops (\<lambda>m. torch_ones (butlast (shape m))))
            (lr (example_self v)) X y ^^ Suc i) example_observations) Xv yv)). 1 \<le> x)
     \<and> shape (weights (example_ops (\<lambda>m. torch_ones (butlast (shape m))))
        ((gradient_step (example_ops (\<lambda>m. torch_ones (butlast (shape m))))
            (lr (example_self v)) X y ^^ Suc i) example_observations)) = [2, 2] @ [2]
     \<and> wf_tensor (weights (example_ops (\<lambda>m. torch_ones (butlast (shape m))))
        ((gradient_step (example_ops (\<lambda>m. torch_ones (butlast (shape m))))
            (lr (example_self v)) X y ^^ Suc i) example_observations))"
  unfolding ex_lr ex_ops example_observations_def ex_iterate
  by (simp add: torch_ones_def wf_tensor_def numel_def)

lemma ex_val_run:
  "\<exists>bar'. PGDOptim (example_ops (\<lambda>m. torch_ones (butlast (shape m)))) example_dops
      (example_self (Some \<lparr>sub_dataset = example_dataset, sub_indices = [1]\<rparr>))
      example_observations
      (dataset_train (example_self (Some \<lparr>sub_dataset = example_dataset, sub_indices = [1]\<rparr>)))
      (Some \<lparr>sub_dataset = example_dataset, sub_indices = [1]\<rparr>)
    = Inr (torch_zeros [2, 2, 2], Tensor [2, 2, 2] [2, 0, 0, 1, 1, 1, 0, 0],
           (example_self (Some \<lparr>sub_dataset = example_dataset, sub_indices = [1]\<rparr>))
             \<lparr>converged_bar := Some bar'\<rparr>)
    \<and> bar_refreshes bar' = 2"
proof -
  let ?v = "Some \<lparr>sub_dataset = example_dataset, sub_indices = [1]\<rparr>"
  let ?ops = "example_ops (\<lambda>m. torch_ones (butlast (shape m)))"
  have sz: "size_model ?ops example_observations = [2, 2, 2]" "(2::nat) \<noteq> 1"
    by (simp_all add: ex_ops ex_obs_wf)
  have h: "\<forall>i < nat (num_iter (example_self ?v)).
     shape (conditional_one_rate ?ops
        ((gradient_step ?ops (lr (example_self ?v)) (Tensor [2, 2] [5, 6, 1, 2])
             (Tensor [2, 2] [1, 0, 1, 1]) ^^ Suc i) example_observations)
        (Tensor [1, 2] [3, 4]) (Tensor [2, 1] [1, 0])) = [2, 2]
     \<and> wf_tensor (conditional_one_rate ?ops
        ((gradient_step ?ops (lr (example_self ?v)) (Tensor [2, 2] [5, 6, 1, 2])
             (Tensor [2, 2] [1, 0, 1, 1]) ^^ Suc i) example_observations)
        (Tensor [1, 2] [3, 4]) (Tensor [2, 1] [1, 0]))
     \<and> (\<forall>x \<in> set (elems (conditional_one_rate ?ops
        ((gradient_step ?ops (lr (example_self ?v)) (Tensor [2, 2] [5, 6, 1, 2])
             (Tensor [2, 2] [1, 0, 1, 1]) ^^ Suc i) example_observations)
        (Tensor [1, 2] [3, 4]) (Tensor [2, 1] [1, 0]))). 1 \<le> x)
     \<and> shape (weights ?ops
        ((gradient_step ?ops (lr (example_self ?v)) (Tensor [2, 2] [5, 6, 1, 2])
             (Tensor [2, 2] [1, 0, 1, 1]) ^^ Suc i) example_observations)) = [2, 2] @ [2]"
    using ex_rates_ones [of ?v "Tensor [2, 2] [5, 6, 1, 2]" "Tensor [2, 2] [1, 0, 1, 1]"
        "Tensor [1, 2] [3, 4]" "Tensor [2, 1] [1, 0]"] by blast
  from PGDOptim_sentinel_typed [OF ex_bar [of ?v] ex_train [of ?v] ex3_t ex_val ex_t_row sz(1) sz(2) sz(2) sz(2) h]
  show ?thesis
    by (simp add: ex_lr ex_ops ex_two tqdm_new_def) (simp add: numeral_2_eq_2)
qed

theorem PGDOptim_iterations_witness:
  "converged_bar (example_self None)
     = Some (tqdm_new 4 ''demo learning reference class - converging'')
   \<and> subset_all example_dops (dataset_train (example_self None))
     = (Tensor [2, 2] [1, 1, 0, 1], Tensor [2, 2] [5, 6, 1, 2])
   \<and> tensor_t (Tensor [2, 2] [1, 1, 0, 1 :: real]) = Inr (Tensor [2, 2] [1, 0, 1, 1])
   \<and> (\<exists>self'. PGDOptim (example_ops (\<lambda>m. m)) example_dops (example_self None)
          example_observations (dataset_train (example_self None)) None
        = Inr (Tensor [2, 2, 2] [2, 0, 0, 1, 1, 1, 0, 0],
               Tensor [2, 2, 2] [2, 0, 0, 1, 1, 1, 0, 0], self')
        \<and> map_option bar_refreshes (converged_bar self') = Some 2)
   \<and> (\<exists>self'. PGDOptim (example_ops (\<lambda>m. torch_ones (butlast (shape m)))) example_dops
          (example_self (Some \<lparr>sub_dataset = example_dataset, sub_indices = [1]\<rparr>))
          example_observations
          (dataset_train (example_self (Some \<lparr>sub_dataset = example_dataset, sub_indices = [1]\<rparr>)))
          (Some \<lparr>sub_dataset = example_dataset, sub_indices = [1]\<rparr>)
        = Inr (torch_zeros [2, 2, 2], Tensor [2, 2, 2] [2, 0, 0, 1, 1, 1, 0, 0], self')
        \<and> map_option bar_refreshes (converged_bar self') = Some 2)"
proof -
  let ?v = "Some \<lparr>sub_dataset = example_dataset, sub_indices = [1]\<rparr>"
  have b0: "bar_refreshes (tqdm_new 4 ''demo learning reference class - converging'') = 0"
    by (simp add: tqdm_new_def)
  have n: "nat (num_iter (example_self v)) = 2" for v by (simp add: ex_lr)
  from PGDOptim_iterations [OF ex_bar [of None] ex_train [of None] ex3_t, THEN conjunct1,
      of "example_ops (\<lambda>m. m)" example_observations]
  have a: "\<exists>self'. PGDOptim (example_ops (\<lambda>m. m)) example_dops (example_self None)
          example_observations (dataset_train (example_self None)) None
        = Inr (Tensor [2, 2, 2] [2, 0, 0, 1, 1, 1, 0, 0],
               Tensor [2, 2, 2] [2, 0, 0, 1, 1, 1, 0, 0], self')
        \<and> map_option bar_refreshes (converged_bar self') = Some 2"
    by (simp add: n ex_lr ex_two b0) (simp add: numeral_2_eq_2)
  from ex_val_run obtain bar' where
    run: "PGDOptim (example_ops (\<lambda>m. torch_ones (butlast (shape m)))) example_dops
          (example_self ?v) example_observations (dataset_train (example_self ?v)) ?v
        = Inr (torch_zeros [2, 2, 2], Tensor [2, 2, 2] [2, 0, 0, 1, 1, 1, 0, 0],
               (example_self ?v)\<lparr>converged_bar := Some bar'\<rparr>)"
    by blast
  from PGDOptim_iterations [OF ex_bar [of ?v] ex_train [of ?v] ex3_t, THEN conjunct2,
      rule_format, OF run]
  have "map_option bar_refreshes (converged_bar ((example_self ?v)\<lparr>converged_bar := Some bar'\<rparr>))
      = Some 2"
    by (simp add: n b0)
  with run have b: "\<exists>self'. PGDOptim (example_ops (\<lambda>m. torch_ones (butlast (shape m)))) example_dops
          (example_self ?v) example_observations (dataset_train (example_self ?v)) ?v
        = Inr (torch_zeros [2, 2, 2], Tensor [2, 2, 2] [2, 0, 0, 1, 1, 1, 0, 0], self')
        \<and> map_option bar_refreshes (converged_bar self') = Some 2"
    by blast
  from ex_bar [of None] ex_train [of None] ex3_t [of 1 1 0 "1 :: real"] a b
  show ?thesis by blast
qed


section \<open>Selection on the evaluation split\<close>

















section \<open>The result depends on the inputs alone\<close>











end
